theory Spec2Isabelle
  imports Main
begin

section \<open>Errors, log lines and effects\<close>

text \<open>
  A Go \<open>error\<close> is a value. \<open>fmt.Errorf(format, args...)\<close> is kept as the format with its
  arguments, so that no formatting verb has to be interpreted; \<open>NotFoundError\<close> is the
  source's own error type (line 662), holding its message; \<open>OSError\<close> stands for an error
  handed over by the operating system or a library call (os, net/http, encoding/json).
\<close>

datatype arg = ArgS string | ArgI int | ArgE error
  and error = Errorf string "arg list" | NotFoundError string | OSError string

text \<open>
  What a function returning \<open>error\<close> can do: return \<open>nil\<close>, return an error, or panic on a
  nil pointer dereference. A function returning a value returns \<open>None\<close> where the Go code
  panics.
\<close>

datatype outcome = Ok | Err error | Panic

text \<open>
  Everything the program does to the outside world, in the order it happens: requests
  handed to the HTTP client (verb, URL, headers, marshalled body), lines printed by the
  logger, changes to the file system, the editor process, and the two channel operations
  of the foreground in \<open>edit\<close> together with the watcher closing \<open>done\<close>.
\<close>

datatype effect =
    HttpRequest string string "(string \<times> string) list" "string option"
  | LogPrint string "arg list"
  | FsCreate string
  | FsWrite string string
  | FsRemove string
  | FsRename string string
  | RunEditor string string
  | CloseStop
  | CloseDone
  | RecvDone

section \<open>Entity model (lines 324-444)\<close>

text \<open>
  Go's \<open>int\<close> fields are only copied and compared, never computed with, so they are
  integers here. \<open>time.Time\<close> is only compared for equality.
  A pointer field is an \<open>option\<close>: \<open>None\<close> is \<open>nil\<close>.
\<close>

type_synonym Time = int

record Post =
  Post_ID :: int
  Post_Username :: string
  Post_Cooked :: string
  Post_Raw :: string
  Post_UpdatedAt :: Time
  Post_TopicID :: int
  Post_Blurb :: string
  Post_DraftSequence :: int

record DraftData =
  DraftData_Action :: string
  DraftData_Title :: string
  DraftData_Reply :: string
  DraftData_OriginalText :: string
  DraftData_ComposerTime :: int
  DraftData_TypingTime :: int
  DraftData_PostID :: int
  DraftData_Whisper :: bool

record Draft =
  Draft_Key :: string
  Draft_TopicID :: int
  Draft_Sequence :: int
  Draft_Data :: "DraftData option"

record Topic =
  Topic_ID :: int
  Topic_Slug :: string
  Topic_Title :: string
  Topic_Category :: int
  Topic_BumpedAt :: Time
  Topic_DraftKey :: string
  Topic_DraftSequence :: int
  Topic_Post :: "Post option"
  Topic_Draft :: "Draft option"
  Topic_content :: string

text \<open>\<open>(p *Post) EditText\<close> and \<open>OriginalText\<close>, lines 438-444: reading \<open>p.Raw\<close> panics on nil.\<close>

definition Post_EditText :: "Post option \<Rightarrow> string option" where
  "Post_EditText p = (case p of None \<Rightarrow> None | Some q \<Rightarrow> Some (Post_Raw q))"

definition Post_OriginalText :: "Post option \<Rightarrow> string option" where
  "Post_OriginalText p = (case p of None \<Rightarrow> None | Some q \<Rightarrow> Some (Post_Raw q))"

text \<open>\<open>(d *Draft) EditText\<close> and \<open>OriginalText\<close>, lines 389-395: \<open>d.Data.Reply\<close> reads through
  two pointers.\<close>

definition Draft_EditText :: "Draft option \<Rightarrow> string option" where
  "Draft_EditText d =
     (case d of None \<Rightarrow> None
      | Some x \<Rightarrow> (case Draft_Data x of None \<Rightarrow> None | Some dd \<Rightarrow> Some (DraftData_Reply dd)))"

definition Draft_OriginalText :: "Draft option \<Rightarrow> string option" where
  "Draft_OriginalText d =
     (case d of None \<Rightarrow> None
      | Some x \<Rightarrow> (case Draft_Data x of None \<Rightarrow> None
                   | Some dd \<Rightarrow> Some (DraftData_OriginalText dd)))"

text \<open>\<open>(t *Topic) EditText\<close> and \<open>OriginalText\<close>, lines 338-350.\<close>

definition Topic_EditText :: "Topic \<Rightarrow> string option" where
  "Topic_EditText t =
     (if Topic_Draft t \<noteq> None then Draft_EditText (Topic_Draft t)
      else Post_EditText (Topic_Post t))"

definition Topic_OriginalText :: "Topic \<Rightarrow> string option" where
  "Topic_OriginalText t =
     (if Topic_Draft t \<noteq> None then Draft_OriginalText (Topic_Draft t)
      else Post_OriginalText (Topic_Post t))"

text \<open>
  \<open>(t *Topic) CheckDraft\<close>, lines 352-357. The \<open>&&\<close> evaluates its right side only when a
  draft is present; the draft's text is read first, then the post's.
\<close>

definition CheckDraft :: "Topic \<Rightarrow> outcome" where
  "CheckDraft t =
     (if Topic_Draft t \<noteq> None then
        (case Draft_OriginalText (Topic_Draft t) of
           None \<Rightarrow> Panic
         | Some d \<Rightarrow>
             (case Post_OriginalText (Topic_Post t) of
                None \<Rightarrow> Panic
              | Some p \<Rightarrow>
                  if d \<noteq> p then
                    Err (Errorf ''content was changed after existing draft started (see -ignore-draft and -force-draft)'' [])
                  else Ok))
      else Ok)"

section \<open>Flags, globals and the standard library\<close>

text \<open>
  The command-line flags (lines 22-28), the expanded \<open>configPath\<close> (line 54), and what the
  process reads from its environment: \<open>$EDITOR\<close> and the process id.
\<close>

record cfg =
  debug :: bool
  ignoreDraft :: bool
  forceDraft :: bool
  liveEdit :: bool
  configPath :: string
  EDITOR :: string
  Getpid :: int

text \<open>
  The request bodies the program marshals: the map built in \<open>SaveTopic\<close> (lines 490-495)
  with its \<open>raw\<close> and \<open>raw_old\<close>, and the draft posted by \<open>SaveDraft\<close>.
\<close>

datatype body = PostBody string string | DraftBody Draft

text \<open>
  Functions of Go's standard library that the program calls and that are not part of the
  repository are parameters of the model: \<open>bytes.TrimSpace\<close>, \<open>strings.TrimSpace\<close>, and
  \<open>json.Marshal\<close> / \<open>json.Unmarshal\<close> at each type they are used at. Unmarshalling into
  the anonymous result structs gives the fields the program reads afterwards:
  \<open>Errors\<close> (line 640); the embedded \<open>*Topic\<close> and \<open>PostStream.Posts\<close> (line 459);
  \<open>Post\<close> (line 497); \<open>Data\<close> and \<open>Sequence\<close> (line 519); \<open>Success\<close> and
  \<open>DraftSequence\<close> (line 565).
\<close>

record stdlib =
  bytes_TrimSpace :: "string \<Rightarrow> string"
  strings_TrimSpace :: "string \<Rightarrow> string"
  json_Marshal_draftData :: "DraftData \<Rightarrow> error + string"
  json_Marshal_string :: "string \<Rightarrow> error + string"
  json_Unmarshal_string :: "string \<Rightarrow> error + string"
  json_Unmarshal_draftData :: "string \<Rightarrow> DraftData \<Rightarrow> error + DraftData"
  json_Marshal_body :: "body \<Rightarrow> error + string"
  json_Unmarshal_errors :: "string \<Rightarrow> error + string list"
  json_Unmarshal_topic :: "string \<Rightarrow> error + Topic option \<times> Post option list"
  json_Unmarshal_post :: "string \<Rightarrow> error + Post option"
  json_Unmarshal_draft :: "string \<Rightarrow> error + DraftData option \<times> int"
  json_Unmarshal_saved :: "string \<Rightarrow> error + string \<times> int"

text \<open>\<open>strconv.Itoa\<close>, and \<open>%d\<close> of \<open>fmt.Sprintf\<close>: the decimal digits, with a sign.\<close>

definition digit :: "nat \<Rightarrow> char" where
  "digit d =
     (if d = 0 then CHR ''0'' else if d = 1 then CHR ''1'' else if d = 2 then CHR ''2''
      else if d = 3 then CHR ''3'' else if d = 4 then CHR ''4'' else if d = 5 then CHR ''5''
      else if d = 6 then CHR ''6'' else if d = 7 then CHR ''7'' else if d = 8 then CHR ''8''
      else CHR ''9'')"

fun digits10 :: "nat \<Rightarrow> string" where
  "digits10 n =
     (if n < 10 then [digit n] else digits10 (n div 10) @ [digit (n mod 10)])"

declare digits10.simps [simp del]

definition Itoa :: "int \<Rightarrow> string" where
  "Itoa i = (if i < 0 then CHR ''-'' # digits10 (nat (- i)) else digits10 (nat i))"

text \<open>\<open>logf\<close> and \<open>debugf\<close>, lines 677-687. \<open>quietMode\<close> is a global that \<open>edit\<close> sets
  around the editor's run; it is passed along.\<close>

definition logf :: "bool \<Rightarrow> string \<Rightarrow> arg list \<Rightarrow> effect list" where
  "logf quietMode format args = (if \<not> quietMode then [LogPrint format args] else [])"

definition debugf :: "cfg \<Rightarrow> string \<Rightarrow> arg list \<Rightarrow> effect list" where
  "debugf c format args = (if debug c then [LogPrint (''[DEBUG] '' @ format) args] else [])"

text \<open>\<open>isNotFound\<close>, lines 670-673.\<close>

definition isNotFound :: "error \<Rightarrow> bool" where
  "isNotFound err = (case err of NotFoundError m \<Rightarrow> True | _ \<Rightarrow> False)"

text \<open>\<open>(t *Topic) String\<close>, line 359: \<open>fmt.Sprintf("/%s/%d", t.Slug, t.ID)\<close>.\<close>

definition Topic_String :: "Topic \<Rightarrow> string" where
  "Topic_String t = ''/'' @ Topic_Slug t @ ''/'' @ Itoa (Topic_ID t)"

section \<open>The draft payload on the wire (lines 408-425)\<close>

text \<open>
  \<open>MarshalJSON\<close> marshals the payload as a plain struct (the type \<open>draftData\<close> has no
  methods), then marshals the resulting text as a JSON string. \<open>UnmarshalJSON\<close> decodes
  a JSON string, then decodes its content into the receiver; the receiver's new value
  is returned.
\<close>

definition MarshalJSON :: "stdlib \<Rightarrow> DraftData \<Rightarrow> error + string" where
  "MarshalJSON L dd =
     (case json_Marshal_draftData L dd of
        Inl err \<Rightarrow> Inl err
      | Inr raw \<Rightarrow> json_Marshal_string L raw)"

definition UnmarshalJSON :: "stdlib \<Rightarrow> DraftData \<Rightarrow> string \<Rightarrow> error + DraftData" where
  "UnmarshalJSON L dd data =
     (case json_Unmarshal_string L data of
        Inl err \<Rightarrow> Inl err
      | Inr raw \<Rightarrow> json_Unmarshal_draftData L raw dd)"

section \<open>Remote client (lines 446-660)\<close>

record ForumConfig =
  Username :: string
  Key :: string

text \<open>\<open>Forum.config\<close> is a pointer that \<open>run\<close> checks against nil (line 119) before it
  builds the forum, so it is a plain value here.\<close>

record Forum =
  Forum_config :: ForumConfig
  Forum_baseURL :: string

text \<open>
  What the network answers to one request: whether \<open>http.NewRequest\<close>, \<open>httpClient.Do\<close>
  and \<open>ioutil.ReadAll\<close> fail, the status code and the response body.
\<close>

record http_env =
  NewRequest_err :: "error option"
  Do_err :: "error option"
  StatusCode :: int
  ReadAll_err :: "error option"
  ReadAll_data :: string

text \<open>
  \<open>(f *Forum) do\<close>, lines 597-660. Every caller passes a non-nil \<open>result\<close>, here the
  unmarshalling function of its type. The request is recorded when it is handed to the
  HTTP client.
\<close>

definition do ::
  "cfg \<Rightarrow> stdlib \<Rightarrow> Forum \<Rightarrow> string \<Rightarrow> string \<Rightarrow> body option \<Rightarrow> (string \<Rightarrow> error + 'r) \<Rightarrow>
   http_env \<Rightarrow> (error + 'r) \<times> effect list" where
  "do c L f verb path body unmarshal h =
     (case (case body of
              None \<Rightarrow> Inr None
            | Some b \<Rightarrow> (case json_Marshal_body L b of Inl err \<Rightarrow> Inl err | Inr data \<Rightarrow> Inr (Some data))) of
        Inl err \<Rightarrow>
          (Inl (Errorf ''internal error: cannot marshal request body: %v'' [ArgE err]), [])
      | Inr rbody \<Rightarrow>
          let log1 = (case rbody of
                        Some data \<Rightarrow> debugf c ''%s on %s with %s'' [ArgS verb, ArgS path, ArgS data]
                      | None \<Rightarrow> debugf c ''%s on %s'' [ArgS verb, ArgS path])
          in
          (case NewRequest_err h of
             Some err \<Rightarrow> (Inl (Errorf ''cannot create request: %v'' [ArgE err]), log1)
           | None \<Rightarrow>
               let req = HttpRequest verb (Forum_baseURL f @ path)
                           [(''Content-Type'', ''application/json''),
                            (''API-Username'', Username (Forum_config f)),
                            (''API-Key'', Key (Forum_config f))] rbody
               in
               (case Do_err h of
                  Some err \<Rightarrow>
                    (Inl (Errorf ''cannot perform request on %s: %v'' [ArgS path, ArgE err]),
                     log1 @ [req])
                | None \<Rightarrow>
                    (case ReadAll_err h of
                       Some err \<Rightarrow>
                         (Inl (Errorf ''cannot read response (status %d): %v''
                                 [ArgI (StatusCode h), ArgE err]),
                          log1 @ [req])
                     | None \<Rightarrow>
                         let data = ReadAll_data h;
                             effs = log1 @ [req] @
                               debugf c ''Got response %d with %s'' [ArgI (StatusCode h), ArgS data]
                         in
                         if StatusCode h = 200 then
                           (case unmarshal data of
                              Inl err \<Rightarrow>
                                (Inl (Errorf ''cannot decode response from %s: %v''
                                        [ArgS path, ArgE err]), effs)
                            | Inr result \<Rightarrow> (Inr result, effs))
                         else if StatusCode h = 401 \<or> StatusCode h = 404 then
                           (Inl (NotFoundError (''resource not found: '' @ path)), effs)
                         else if StatusCode h = 409 then
                           (Inl (Errorf ''someone else edited the same content meanwhile'' []), effs)
                         else
                           let msg = (case json_Unmarshal_errors L data of
                                        Inr (e # es) \<Rightarrow> e
                                      | _ \<Rightarrow> ''got '' @ Itoa (StatusCode h) @ '' status'')
                           in (Inl (Errorf ''cannot perform request: %s'' [ArgS msg]), effs)))))"

text \<open>What one call of \<open>SaveTopic\<close> or \<open>SaveDraft\<close> meets: the result of its
  \<open>ioutil.ReadFile\<close> and the network's answer.\<close>

record save_env =
  sv_ReadFile :: "error + string"
  sv_http :: http_env

text \<open>\<open>(f *Forum) LoadTopic\<close>, lines 455-476. It runs before the editor, never in quiet
  mode.\<close>

definition LoadTopic ::
  "cfg \<Rightarrow> stdlib \<Rightarrow> Forum \<Rightarrow> int \<Rightarrow> http_env \<Rightarrow> (error + Topic) \<times> effect list" where
  "LoadTopic c L f topicID h =
     (let log1 = logf False ''Loading topic %d...'' [ArgI topicID] in
      case do c L f ''GET'' (''/t/'' @ Itoa topicID @ ''.json?include_raw=true'') None
             (json_Unmarshal_topic L) h of
        (Inl err, effs) \<Rightarrow> (Inl err, log1 @ effs)
      | (Inr (result_Topic, Posts), effs) \<Rightarrow>
          (case result_Topic of
             None \<Rightarrow>
               (Inl (Errorf ''internal error: topic %d has no posts!?'' [ArgI topicID]), log1 @ effs)
           | Some t \<Rightarrow>
               (case Posts of
                  [] \<Rightarrow>
                    (Inl (Errorf ''internal error: topic %d has no posts!?'' [ArgI topicID]),
                     log1 @ effs)
                | p # ps \<Rightarrow> (Inr (t\<lparr>Topic_Post := p\<rparr>), log1 @ effs))))"

text \<open>\<open>(f *Forum) SaveTopic\<close>, lines 478-513. The topic is passed in and returned: the Go
  code updates it in place. \<open>raw_old\<close> (line 493) and \<open>topic.Post.ID\<close> (line 500) are read
  before the request.\<close>

definition SaveTopic ::
  "cfg \<Rightarrow> stdlib \<Rightarrow> bool \<Rightarrow> Forum \<Rightarrow> Topic \<Rightarrow> string \<Rightarrow> save_env \<Rightarrow>
   outcome \<times> Topic \<times> effect list" where
  "SaveTopic c L quietMode f topic filename env =
     (case sv_ReadFile env of
        Inl err \<Rightarrow>
          (Err (Errorf ''cannot read edited content at %s: %v'' [ArgS filename, ArgE err]),
           topic, [])
      | Inr content \<Rightarrow>
          let log1 = logf quietMode ''Saving topic %s ...'' [ArgS (Topic_String topic)];
              raw = bytes_TrimSpace L content
          in
          (case Topic_OriginalText topic of
             None \<Rightarrow> (Panic, topic, log1)
           | Some raw_old \<Rightarrow>
               (case Topic_Post topic of
                  None \<Rightarrow> (Panic, topic, log1)
                | Some post \<Rightarrow>
                    (case do c L f ''PUT'' (''/posts/'' @ Itoa (Post_ID post) @ ''.json'')
                            (Some (PostBody raw raw_old)) (json_Unmarshal_post L) (sv_http env) of
                       (Inl err, effs) \<Rightarrow> (Err err, topic, log1 @ effs)
                     | (Inr result_Post, effs) \<Rightarrow>
                         let log2 = logf quietMode ''Saved %s.'' [ArgS (Topic_String topic)] in
                         (case result_Post of
                            None \<Rightarrow>
                              (Panic, topic\<lparr>Topic_Post := None\<rparr>, log1 @ effs @ log2)
                          | Some p \<Rightarrow>
                              (Ok,
                               topic\<lparr>Topic_Post := Some (p\<lparr>Post_Raw := raw\<rparr>),
                                     Topic_Draft := None,
                                     Topic_DraftSequence := Post_DraftSequence p\<rparr>,
                               log1 @ effs @ log2))))))"

text \<open>\<open>(f *Forum) LoadDraft\<close>, lines 515-539.\<close>

definition LoadDraft ::
  "cfg \<Rightarrow> stdlib \<Rightarrow> Forum \<Rightarrow> Topic \<Rightarrow> http_env \<Rightarrow> outcome \<times> Topic \<times> effect list" where
  "LoadDraft c L f topic h =
     (let log1 = logf False ''Loading draft for topic %d...'' [ArgI (Topic_ID topic)];
          key = ''topic_'' @ Itoa (Topic_ID topic)
      in
      case do c L f ''GET'' (''/draft.json?draft_key='' @ key) None (json_Unmarshal_draft L) h of
        (Inl err, effs) \<Rightarrow> (Err err, topic, log1 @ effs)
      | (Inr (Data, Sequence), effs) \<Rightarrow>
          (case Data of
             None \<Rightarrow> (Ok, topic\<lparr>Topic_DraftSequence := Sequence\<rparr>, log1 @ effs)
           | Some dd \<Rightarrow>
               (Ok,
                topic\<lparr>Topic_DraftSequence := Sequence,
                      Topic_Draft := Some \<lparr>Draft_Key = key, Draft_TopicID = Topic_ID topic,
                                            Draft_Sequence = Sequence, Draft_Data = Some dd\<rparr>\<rparr>,
                log1 @ effs)))"

text \<open>\<open>(f *Forum) SaveDraft\<close>, lines 541-595. The draft is built before the request:
  \<open>topic.Post.ID\<close> and \<open>topic.OriginalText()\<close> panic on a nil pointer.\<close>

definition SaveDraft ::
  "cfg \<Rightarrow> stdlib \<Rightarrow> bool \<Rightarrow> Forum \<Rightarrow> Topic \<Rightarrow> string \<Rightarrow> save_env \<Rightarrow>
   outcome \<times> Topic \<times> effect list" where
  "SaveDraft c L quietMode f topic filename env =
     (case sv_ReadFile env of
        Inl err \<Rightarrow>
          (Err (Errorf ''cannot read edited content at %s: %v'' [ArgS filename, ArgE err]),
           topic, [])
      | Inr content \<Rightarrow>
          let log1 = logf quietMode ''Saving draft for %s ...'' [ArgS (Topic_String topic)] in
          (case Topic_Post topic of
             None \<Rightarrow> (Panic, topic, log1)
           | Some post \<Rightarrow>
               (case Topic_OriginalText topic of
                  None \<Rightarrow> (Panic, topic, log1)
                | Some original \<Rightarrow>
                    let draft = \<lparr>Draft_Key = ''topic_'' @ Itoa (Topic_ID topic),
                                 Draft_TopicID = Topic_ID topic,
                                 Draft_Sequence = Topic_DraftSequence topic,
                                 Draft_Data = Some
                                   \<lparr>DraftData_Action = ''edit'',
                                    DraftData_Title = Topic_Title topic,
                                    DraftData_Reply = content,
                                    DraftData_OriginalText = original,
                                    DraftData_ComposerTime = 4321,
                                    DraftData_TypingTime = 1234,
                                    DraftData_PostID = Post_ID post,
                                    DraftData_Whisper = False\<rparr>\<rparr>
                    in
                    (case do c L f ''POST'' ''/draft.json'' (Some (DraftBody draft))
                            (json_Unmarshal_saved L) (sv_http env) of
                       (Inl err, effs) \<Rightarrow> (Err err, topic, log1 @ effs)
                     | (Inr (Success, DraftSequence), effs) \<Rightarrow>
                         if Success \<noteq> ''OK'' then
                           (Err (Errorf ''cannot update draft: %q''
                                   [ArgS (if Success = [] then ''unknown error'' else Success)]),
                            topic, log1 @ effs)
                         else
                           (Ok,
                            topic\<lparr>Topic_Draft := Some draft, Topic_DraftSequence := DraftSequence\<rparr>,
                            log1 @ effs @
                            logf quietMode ''Saved draft for %s.'' [ArgS (Topic_String topic)])))))"

section \<open>Backup and comparison helpers (lines 186-193, 287-296)\<close>

text \<open>\<open>renameToLast\<close>: one \<open>os.Rename\<close>, whose failure is only logged. It runs after
  \<open>edit\<close> has returned, when \<open>quietMode\<close> is false again.\<close>

definition renameToLast :: "cfg \<Rightarrow> string \<Rightarrow> error option \<Rightarrow> effect list" where
  "renameToLast c filename renameErr =
     FsRename filename (configPath c @ ''.last.md'') #
     (case renameErr of
        Some err \<Rightarrow> logf False ''WARNING: Cannot save backup: %v'' [ArgE err]
      | None \<Rightarrow> logf False (''Saved backup: '' @ configPath c @ ''.last.md'') [])"

text \<open>\<open>fileChanged\<close>: the result of \<open>ioutil.ReadFile\<close> is its second argument here.\<close>

definition fileChanged ::
  "stdlib \<Rightarrow> string \<Rightarrow> error + string \<Rightarrow> string \<Rightarrow> bool \<times> bool \<times> error option" where
  "fileChanged L filename readFile original =
     (case readFile of
        Inl err \<Rightarrow>
          (False, False,
           Some (Errorf ''cannot tell whether %s changed: %v'' [ArgS filename, ArgE err]))
      | Inr data \<Rightarrow>
          let trimmed = bytes_TrimSpace L data
          in (trimmed \<noteq> strings_TrimSpace L original, length trimmed = 0, None))"

section \<open>The watcher and the edit step (lines 195-285)\<close>

text \<open>
  What one iteration of the watcher meets: the result of \<open>os.Stat\<close> (the modification
  time), of the \<open>ReadFile\<close> inside \<open>fileChanged\<close>, and what its calls of \<open>SaveTopic\<close> and
  \<open>SaveDraft\<close> would meet.
\<close>

record tick_env =
  tk_Stat :: "error + Time"
  tk_ReadFile :: "error + string"
  tk_SaveTopic :: save_env
  tk_SaveDraft :: save_env

text \<open>The variables the goroutine keeps between iterations: \<open>stat\<close> (its modification
  time), \<open>text\<close>, and the topic it shares with the foreground.\<close>

record watcher =
  w_stat :: Time
  w_text :: string
  w_topic :: Topic

text \<open>
  One pass through the body of the \<open>for\<close> loop, lines 243-270, after the \<open>select\<close>. The
  first component of the result says whether the goroutine panicked. A \<open>continue\<close> leaves
  \<open>stat\<close> and \<open>text\<close> as they were.
\<close>

definition watcher_iteration ::
  "cfg \<Rightarrow> stdlib \<Rightarrow> bool \<Rightarrow> Forum \<Rightarrow> string \<Rightarrow> tick_env \<Rightarrow> watcher \<Rightarrow>
   bool \<times> watcher \<times> effect list" where
  "watcher_iteration c L quietMode forum filename env w =
     (case tk_Stat env of
        Inl err \<Rightarrow> (False, w, debugf c ''Error stating file for draft: %v'' [ArgE err])
      | Inr curstat \<Rightarrow>
          if curstat = w_stat w then (False, w, [])
          else
            (case fileChanged L filename (tk_ReadFile env) (w_text w) of
               (different, isempty, err) \<Rightarrow>
                 if err \<noteq> None \<or> \<not> different \<or> isempty then (False, w, [])
                 else
                   (case (if liveEdit c then
                            (case SaveTopic c L quietMode forum (w_topic w) filename (tk_SaveTopic env) of
                               (Err e, t, effs) \<Rightarrow>
                                 (Err e, t, effs @ debugf c ''Error saving live edit: %v'' [ArgE e])
                             | (r, t, effs) \<Rightarrow> (r, t, effs))
                          else (Ok, w_topic w, [])) of
                      (Panic, topic1, effs1) \<Rightarrow> (True, w\<lparr>w_topic := topic1\<rparr>, effs1)
                    | (err1, topic1, effs1) \<Rightarrow>
                        (case (if \<not> liveEdit c \<or> err1 \<noteq> Ok then
                                 SaveDraft c L quietMode forum topic1 filename (tk_SaveDraft env)
                               else (Ok, topic1, [])) of
                           (Panic, topic2, effs2) \<Rightarrow> (True, w\<lparr>w_topic := topic2\<rparr>, effs1 @ effs2)
                         | (Err e, topic2, effs2) \<Rightarrow>
                             (False, w\<lparr>w_topic := topic2\<rparr>,
                              effs1 @ effs2 @ debugf c ''Error saving draft: %v'' [ArgE e])
                         | (Ok, topic2, effs2) \<Rightarrow>
                             (case Topic_EditText topic2 of
                                None \<Rightarrow>
                                  (True, w\<lparr>w_stat := curstat, w_topic := topic2\<rparr>, effs1 @ effs2)
                              | Some text \<Rightarrow>
                                  (False, \<lparr>w_stat = curstat, w_text = text, w_topic = topic2\<rparr>,
                                   effs1 @ effs2))))))"

text \<open>The iterations started by the timer while the editor runs, one per element of the
  list; a panic ends the program.\<close>

fun watcher_loop ::
  "cfg \<Rightarrow> stdlib \<Rightarrow> bool \<Rightarrow> Forum \<Rightarrow> string \<Rightarrow> tick_env list \<Rightarrow> watcher \<Rightarrow>
   bool \<times> watcher \<times> effect list" where
  "watcher_loop c L quietMode forum filename [] w = (False, w, [])"
| "watcher_loop c L quietMode forum filename (env # envs) w =
     (case watcher_iteration c L quietMode forum filename env w of
        (True, w1, effs1) \<Rightarrow> (True, w1, effs1)
      | (False, w1, effs1) \<Rightarrow>
          (case watcher_loop c L quietMode forum filename envs w1 of
             (p, w2, effs2) \<Rightarrow> (p, w2, effs1 @ effs2)))"

text \<open>
  What \<open>edit\<close> meets: the failures of creating, writing and closing the temporary file,
  the first \<open>os.Stat\<close>, the iterations the timer starts while the editor runs (the editor
  is taken to exit, so they are finitely many), the result of \<open>cmd.Run\<close>, and the
  iteration the watcher makes once \<open>stop\<close> is closed.
\<close>

record edit_env =
  ed_Create_err :: "error option"
  ed_Write_err :: "error option"
  ed_Close_err :: "error option"
  ed_Stat :: "error + Time"
  ed_ticks :: "tick_env list"
  ed_Run_err :: "error option"
  ed_last :: tick_env

text \<open>
  \<open>edit\<close>, lines 195-285, with the goroutine's iterations placed where the channels put
  them: the timer's iterations between the start of the editor and its exit, in quiet
  mode; after \<open>close(stop)\<close> the \<open>select\<close> takes the \<open>stop\<close> case and the loop body runs
  once more, with \<open>quietMode\<close> already reset, before the deferred \<open>close(done)\<close> lets
  \<open><-done\<close> return. When \<open>cmd.Run\<close> fails, \<open>edit\<close> returns at line 278: the goroutine is
  left running and what it does until the process exits is not part of the result.
\<close>

definition edit ::
  "cfg \<Rightarrow> stdlib \<Rightarrow> Forum \<Rightarrow> Topic \<Rightarrow> edit_env \<Rightarrow> string \<times> outcome \<times> Topic \<times> effect list" where
  "edit c L forum topic env =
     (let editor = (if EDITOR c = [] then ''sensible-editor'' else EDITOR c);
          log0 = logf False ''Opening your preferred editor...'' []
      in
      case Topic_EditText topic of
        None \<Rightarrow> ([], Panic, topic, log0)
      | Some text \<Rightarrow>
          let name = configPath c @ ''.'' @ Itoa (Getpid c) @ ''.md'' in
          (case ed_Create_err env of
             Some err \<Rightarrow>
               ([], Err (Errorf ''cannot write temporary file: %v'' [ArgE err]), topic,
                log0 @ [FsCreate name])
           | None \<Rightarrow>
               (case ed_Write_err env of
                  Some err \<Rightarrow>
                    ([], Err (Errorf ''cannot write temporary file: %v'' [ArgE err]), topic,
                     log0 @ [FsCreate name, FsWrite name text, FsRemove name])
                | None \<Rightarrow>
                    (case ed_Close_err env of
                       Some err \<Rightarrow>
                         ([], Err (Errorf ''cannot write temporary file: %v'' [ArgE err]), topic,
                          log0 @ [FsCreate name, FsWrite name text, FsRemove name])
                     | None \<Rightarrow>
                         let effs0 = log0 @ [FsCreate name, FsWrite name text] in
                         (case ed_Stat env of
                            Inl err \<Rightarrow>
                              (name, Err (Errorf ''cannot stat temporary file: %v'' [ArgE err]),
                               topic, effs0)
                          | Inr stat \<Rightarrow>
                              (case watcher_loop c L True forum name (ed_ticks env)
                                      \<lparr>w_stat = stat, w_text = text, w_topic = topic\<rparr> of
                                 (True, w1, effs1) \<Rightarrow>
                                   (name, Panic, w_topic w1,
                                    effs0 @ [RunEditor editor name] @ effs1)
                               | (False, w1, effs1) \<Rightarrow>
                                   (case ed_Run_err env of
                                      Some err \<Rightarrow>
                                        (name,
                                         Err (Errorf ''cannot edit file %s: %v'' [ArgS name, ArgE err]),
                                         w_topic w1,
                                         effs0 @ [RunEditor editor name] @ effs1)
                                    | None \<Rightarrow>
                                        (case watcher_iteration c L False forum name (ed_last env) w1 of
                                           (True, w2, effs2) \<Rightarrow>
                                             (name, Panic, w_topic w2,
                                              effs0 @ [RunEditor editor name] @ effs1 @
                                              [CloseStop] @ effs2)
                                         | (False, w2, effs2) \<Rightarrow>
                                             (name, Ok, w_topic w2,
                                              effs0 @ [RunEditor editor name] @ effs1 @
                                              [CloseStop] @ effs2 @ [CloseDone, RecvDone])))))))))"

section \<open>The session (lines 128-184)\<close>

record run_env =
  rn_LoadTopic :: http_env
  rn_LoadDraft :: http_env
  rn_edit :: edit_env
  rn_ReadFile :: "error + string"
  rn_SaveTopic :: save_env
  rn_Rename_err :: "error option"

text \<open>
  Lines 151-183 of \<open>run\<close>, the final reconciliation, from what \<open>edit\<close> returned (a file
  name, an error or none, and the topic as the watcher left it) and from \<open>initial\<close>, the
  original text read at line 149. The deferred \<open>renameToLast\<close> runs when \<open>run\<close> returns,
  whatever it returns, and also when \<open>SaveTopic\<close> panics.
\<close>

definition run_reconcile ::
  "cfg \<Rightarrow> stdlib \<Rightarrow> Forum \<Rightarrow> string \<Rightarrow> string \<Rightarrow> error option \<Rightarrow> Topic \<Rightarrow> run_env \<Rightarrow>
   outcome \<times> Topic \<times> effect list" where
  "run_reconcile c L forum initial filename edit_err topic env =
     (case (case edit_err of
              Some e \<Rightarrow> Some (False, False, Some e)
            | None \<Rightarrow>
                (case Topic_OriginalText topic of
                   None \<Rightarrow> None
                 | Some original \<Rightarrow> Some (fileChanged L filename (rn_ReadFile env) original))) of
        None \<Rightarrow> (Panic, topic, [])
      | Some (different, isempty, err) \<Rightarrow>
          let deferred = (if filename \<noteq> [] \<and> different \<and> \<not> isempty
                          then renameToLast c filename (rn_Rename_err env) else [])
          in
          (case err of
             Some e \<Rightarrow> (Err e, topic, deferred)
           | None \<Rightarrow>
               if isempty then
                 (Err (Errorf ''no content provided, aborting'' []), topic,
                  [FsRemove filename] @ deferred)
               else if \<not> different then
                 (if liveEdit c then
                    (case Topic_OriginalText topic of
                       None \<Rightarrow> (Panic, topic, deferred)
                     | Some current \<Rightarrow>
                         (Ok, topic,
                          (if initial \<noteq> current then logf False ''Changes already saved.'' []
                           else logf False ''No changes to save.'' []) @
                          [FsRemove filename] @ deferred))
                  else
                    (Ok, topic,
                     logf False ''No changes to save.'' [] @ [FsRemove filename] @ deferred))
               else
                 (case SaveTopic c L False forum topic filename (rn_SaveTopic env) of
                    (r, topic1, effs) \<Rightarrow> (r, topic1, effs @ deferred))))"

text \<open>
  \<open>run\<close> from line 128 on: the flags, the configuration and the topic URL have been read,
  and the forum and the topic id they give are the arguments.
\<close>

definition run :: "cfg \<Rightarrow> stdlib \<Rightarrow> Forum \<Rightarrow> int \<Rightarrow> run_env \<Rightarrow> outcome \<times> effect list" where
  "run c L forum topicID env =
     (case LoadTopic c L forum topicID (rn_LoadTopic env) of
        (Inl err, effs0) \<Rightarrow> (Err err, effs0)
      | (Inr topic0, effs0) \<Rightarrow>
          (case (if \<not> ignoreDraft c then
                   (case LoadDraft c L forum topic0 (rn_LoadDraft env) of
                      (r, topic1, effs1) \<Rightarrow>
                        if (case r of Err e \<Rightarrow> \<not> isNotFound e | _ \<Rightarrow> False) then (r, topic1, effs1)
                        else
                          (case CheckDraft topic1 of
                             Err e \<Rightarrow>
                               if forceDraft c then
                                 (Ok, topic1,
                                  effs1 @ logf False ''Previous draft has problems: %s'' [ArgE e] @
                                  logf False ''Using draft anyway due to -force-draft'' [])
                               else (Err e, topic1, effs1)
                           | r' \<Rightarrow> (r', topic1, effs1)))
                 else (Ok, topic0, [])) of
             (Ok, topic1, effs1) \<Rightarrow>
               (case Topic_OriginalText topic1 of
                  None \<Rightarrow> (Panic, effs0 @ effs1)
                | Some initial \<Rightarrow>
                    (case edit c L forum topic1 (rn_edit env) of
                       (filename, Panic, topic2, effs2) \<Rightarrow> (Panic, effs0 @ effs1 @ effs2)
                     | (filename, r, topic2, effs2) \<Rightarrow>
                         (case run_reconcile c L forum initial filename
                                 (case r of Err e \<Rightarrow> Some e | _ \<Rightarrow> None) topic2 env of
                            (r3, topic3, effs3) \<Rightarrow> (r3, effs0 @ effs1 @ effs2 @ effs3))))
           | (r, topic1, effs1) \<Rightarrow> (r, effs0 @ effs1)))"

section \<open>Reading a trace\<close>

text \<open>The requests of a trace (verb and URL), its renames, and its log lines, in order.\<close>

definition requests :: "effect list \<Rightarrow> (string \<times> string) list" where
  "requests effs =
     concat (map (\<lambda>e. case e of HttpRequest verb url hs b \<Rightarrow> [(verb, url)] | _ \<Rightarrow> []) effs)"

definition renames :: "effect list \<Rightarrow> (string \<times> string) list" where
  "renames effs =
     concat (map (\<lambda>e. case e of FsRename old new \<Rightarrow> [(old, new)] | _ \<Rightarrow> []) effs)"

definition log_lines :: "effect list \<Rightarrow> (string \<times> arg list) list" where
  "log_lines effs =
     concat (map (\<lambda>e. case e of LogPrint format args \<Rightarrow> [(format, args)] | _ \<Rightarrow> []) effs)"

text \<open>The channel operations of a trace.\<close>

definition signals :: "effect list \<Rightarrow> effect list" where
  "signals effs = filter (\<lambda>e. e = CloseStop \<or> e = CloseDone \<or> e = RecvDone) effs"

section \<open>Concrete instances\<close>

text \<open>
  A small instance of the library functions, to run the model on concrete inputs:
  trimming of ASCII white space, JSON string quoting with its two escapes, a JSON text
  for a draft payload, and decoders that know the documents of the examples below.
\<close>

definition isSpace :: "char \<Rightarrow> bool" where
  "isSpace ch = (ch \<in> set [CHR 0x20, CHR 0x09, CHR 0x0A, CHR 0x0B, CHR 0x0C, CHR 0x0D])"

definition ascii_TrimSpace :: "string \<Rightarrow> string" where
  "ascii_TrimSpace s = rev (dropWhile isSpace (rev (dropWhile isSpace s)))"

definition example_quote :: "string \<Rightarrow> string" where
  "example_quote s =
     CHR 0x22 #
     concat (map (\<lambda>ch. if ch = CHR 0x22 \<or> ch = CHR 0x5C then [CHR 0x5C, ch] else [ch]) s) @
     [CHR 0x22]"

fun example_unescape :: "string \<Rightarrow> string option" where
  "example_unescape [] = None"
| "example_unescape [ch] = (if ch = CHR 0x22 then Some [] else None)"
| "example_unescape (ch # ch' # rest) =
     (if ch = CHR 0x5C then map_option ((#) ch') (example_unescape rest)
      else if ch = CHR 0x22 then None
      else map_option ((#) ch) (example_unescape (ch' # rest)))"

definition example_unquote :: "string \<Rightarrow> error + string" where
  "example_unquote data =
     (case data of
        [] \<Rightarrow> Inl (OSError ''unexpected end of JSON input'')
      | ch # rest \<Rightarrow>
          if ch = CHR 0x22 then
            (case example_unescape rest of
               None \<Rightarrow> Inl (OSError ''invalid character in string'')
             | Some s \<Rightarrow> Inr s)
          else Inl (OSError ''cannot unmarshal into Go value of type string''))"

definition example_object :: "DraftData \<Rightarrow> string" where
  "example_object dd =
     ''{'' @ example_quote ''action'' @ '':'' @ example_quote (DraftData_Action dd) @
     '','' @ example_quote ''title'' @ '':'' @ example_quote (DraftData_Title dd) @
     '','' @ example_quote ''reply'' @ '':'' @ example_quote (DraftData_Reply dd) @
     '','' @ example_quote ''originalText'' @ '':'' @ example_quote (DraftData_OriginalText dd) @
     '','' @ example_quote ''composerTime'' @ '':'' @ Itoa (DraftData_ComposerTime dd) @
     '','' @ example_quote ''typingTime'' @ '':'' @ Itoa (DraftData_TypingTime dd) @
     '','' @ example_quote ''postId'' @ '':'' @ Itoa (DraftData_PostID dd) @
     '','' @ example_quote ''whisper'' @ '':'' @
       (if DraftData_Whisper dd then ''true'' else ''false'') @ ''}''"

definition example_draftData :: DraftData where
  "example_draftData =
     \<lparr>DraftData_Action = ''edit'', DraftData_Title = ''Greetings'',
      DraftData_Reply = [CHR ''H'', CHR ''i'', CHR 0x22, CHR 0x5C, CHR ''!''],
      DraftData_OriginalText = ''Hello world'',
      DraftData_ComposerTime = 4321, DraftData_TypingTime = 1234,
      DraftData_PostID = 7, DraftData_Whisper = False\<rparr>"

definition example_post :: Post where
  "example_post =
     \<lparr>Post_ID = 7, Post_Username = ''ann'', Post_Cooked = ''<p>Hello world</p>'',
      Post_Raw = ''Hello world'', Post_UpdatedAt = 100, Post_TopicID = 42,
      Post_Blurb = [], Post_DraftSequence = 3\<rparr>"

text \<open>The post as the server returns it after an update.\<close>

definition example_updated_post :: Post where
  "example_updated_post =
     \<lparr>Post_ID = 7, Post_Username = ''ann'', Post_Cooked = ''<p>Hello there</p>'',
      Post_Raw = ''Hello there'', Post_UpdatedAt = 200, Post_TopicID = 42,
      Post_Blurb = [], Post_DraftSequence = 5\<rparr>"

definition example_topic :: Topic where
  "example_topic =
     \<lparr>Topic_ID = 42, Topic_Slug = ''greetings'', Topic_Title = ''Greetings'',
      Topic_Category = 1, Topic_BumpedAt = 100, Topic_DraftKey = ''topic_42'',
      Topic_DraftSequence = 3, Topic_Post = Some example_post, Topic_Draft = None,
      Topic_content = []\<rparr>"

definition example_draft :: Draft where
  "example_draft =
     \<lparr>Draft_Key = ''topic_42'', Draft_TopicID = 42, Draft_Sequence = 3,
      Draft_Data = Some example_draftData\<rparr>"

definition example_lib :: stdlib where
  "example_lib =
     \<lparr>bytes_TrimSpace = ascii_TrimSpace,
      strings_TrimSpace = ascii_TrimSpace,
      json_Marshal_draftData = (\<lambda>dd. Inr (example_object dd)),
      json_Marshal_string = (\<lambda>s. Inr (example_quote s)),
      json_Unmarshal_string = example_unquote,
      json_Unmarshal_draftData =
        (\<lambda>raw dd. if raw = example_object example_draftData then Inr example_draftData
                  else Inl (OSError ''invalid character'')),
      json_Marshal_body =
        (\<lambda>b. case b of
                PostBody raw raw_old \<Rightarrow> Inr (example_quote raw @ example_quote raw_old)
              | DraftBody d \<Rightarrow> Inr (example_quote (Draft_Key d))),
      json_Unmarshal_errors = (\<lambda>data. Inl (OSError ''unexpected end of JSON input'')),
      json_Unmarshal_topic =
        (\<lambda>data. if data = ''topic'' then Inr (Some (example_topic\<lparr>Topic_Post := None\<rparr>),
                                               [Some example_post])
                 else Inl (OSError ''invalid character'')),
      json_Unmarshal_post =
        (\<lambda>data. if data = ''post'' then Inr (Some example_updated_post)
                 else Inl (OSError ''invalid character'')),
      json_Unmarshal_draft =
        (\<lambda>data. if data = ''draft'' then Inr (Some example_draftData, 3)
                 else if data = ''nodraft'' then Inr (None, 3)
                 else Inl (OSError ''invalid character'')),
      json_Unmarshal_saved =
        (\<lambda>data. if data = ''saved'' then Inr (''OK'', 4)
                 else if data = ''refused'' then Inr (''draft was edited elsewhere'', 4)
                 else Inl (OSError ''invalid character''))\<rparr>"

definition example_cfg :: cfg where
  "example_cfg =
     \<lparr>debug = False, ignoreDraft = False, forceDraft = False, liveEdit = False,
      configPath = ''/home/ann/.discedit'', EDITOR = ''vi'', Getpid = 815\<rparr>"

definition example_forum :: Forum where
  "example_forum =
     \<lparr>Forum_config = \<lparr>Username = ''ann'', Key = ''secret''\<rparr>,
      Forum_baseURL = ''https://forum.example''\<rparr>"

text \<open>A response with the given status and body, with no transport failure.\<close>

definition response :: "int \<Rightarrow> string \<Rightarrow> http_env" where
  "response status data =
     \<lparr>NewRequest_err = None, Do_err = None, StatusCode = status, ReadAll_err = None,
      ReadAll_data = data\<rparr>"

text \<open>The file holds \<open>content\<close> and the server answers with \<open>status\<close> and \<open>data\<close>.\<close>

definition saving :: "string \<Rightarrow> int \<Rightarrow> string \<Rightarrow> save_env" where
  "saving content status data = \<lparr>sv_ReadFile = Inr content, sv_http = response status data\<rparr>"

section \<open>Evaluating the model\<close>

lemmas example_defs =
  example_topic_def example_post_def example_draft_def example_draftData_def example_cfg_def
  example_forum_def example_lib_def example_updated_post_def response_def saving_def

lemmas text_defs =
  Topic_EditText_def Topic_OriginalText_def Draft_EditText_def Draft_OriginalText_def
  Post_EditText_def Post_OriginalText_def

lemmas eval_defs =
  Itoa_def digits10.simps digit_def ascii_TrimSpace_def isSpace_def example_quote_def
  example_unquote_def example_object_def logf_def debugf_def Topic_String_def

section \<open>Entity model: baseline resolution and the conflict check\<close>

text \<open>
  Claim C1. The editable text and the original text of a topic are read through the
  draft when there is one, and give the draft's reply and its recorded original text;
  with no draft both are the post's raw text. Where the pointer that has to be followed
  is nil (a draft without data, no draft and no post) the accessor panics, which is
  \<open>None\<close>. The accessors return a text and nothing else: they have no topic to give back,
  as the Go methods assign to nothing.
\<close>

theorem C1_baseline_resolution:
  "Topic_EditText t =
     (case Topic_Draft t of
        Some d \<Rightarrow> map_option DraftData_Reply (Draft_Data d)
      | None \<Rightarrow> map_option Post_Raw (Topic_Post t))
   \<and> Topic_OriginalText t =
     (case Topic_Draft t of
        Some d \<Rightarrow> map_option DraftData_OriginalText (Draft_Data d)
      | None \<Rightarrow> map_option Post_Raw (Topic_Post t))"
  by (simp add: text_defs split: option.splits)

text \<open>
  Claim C3. \<open>CheckDraft\<close> returns an error exactly when a draft is present and the
  original text it records differs from the post's raw text, and returns nil exactly when
  there is no draft or the two texts are equal. It returns an outcome only, so the topic
  is as it was.
\<close>

theorem C3_conflict_check:
  "((\<exists>e. CheckDraft t = Err e) \<longleftrightarrow>
      (\<exists>d dd p. Topic_Draft t = Some d \<and> Draft_Data d = Some dd \<and> Topic_Post t = Some p \<and>
                DraftData_OriginalText dd \<noteq> Post_Raw p))
   \<and> (CheckDraft t = Ok \<longleftrightarrow>
      (Topic_Draft t = None \<or>
       (\<exists>d dd p. Topic_Draft t = Some d \<and> Draft_Data d = Some dd \<and> Topic_Post t = Some p \<and>
                DraftData_OriginalText dd = Post_Raw p)))"
  by (auto simp: CheckDraft_def Draft_OriginalText_def Post_OriginalText_def
      split: option.splits)

theorem C3_conflict_check_witness:
  "CheckDraft (example_topic\<lparr>Topic_Draft := Some example_draft\<rparr>) = Ok
   \<and> CheckDraft (example_topic\<lparr>Topic_Post := Some example_updated_post,
                               Topic_Draft := Some example_draft\<rparr>)
     = Err (Errorf ''content was changed after existing draft started (see -ignore-draft and -force-draft)'' [])"
  using C3_conflict_check [of "example_topic\<lparr>Topic_Draft := Some example_draft\<rparr>"]
  by (simp add: CheckDraft_def example_defs text_defs)

section \<open>Saving: what changes in the topic, and when\<close>

lemma SaveTopic_Err_unchanged:
  "SaveTopic c L q f topic fn env = (Err e, topic', effs) \<Longrightarrow> topic' = topic"
  by (auto simp: SaveTopic_def Let_def split: sum.splits option.splits prod.splits)

lemma SaveDraft_Err_unchanged:
  "SaveDraft c L q f topic fn env = (Err e, topic', effs) \<Longrightarrow> topic' = topic"
  by (auto simp: SaveDraft_def Let_def split: sum.splits option.splits prod.splits if_splits)

text \<open>A result of \<open>do\<close> comes from a response with status 200 that could be decoded.\<close>

lemma do_Inr:
  "do c L f verb path body unmarshal h = (Inr r, effs) \<Longrightarrow>
   NewRequest_err h = None \<and> Do_err h = None \<and> ReadAll_err h = None \<and>
   StatusCode h = 200 \<and> unmarshal (ReadAll_data h) = Inr r"
  by (simp add: do_def Let_def split: sum.splits option.splits if_splits)

lemma SaveTopic_changed:
  assumes "SaveTopic c L q f topic fn env = (r, topic', effs)" and "topic' \<noteq> topic"
  shows "\<exists>content result. sv_ReadFile env = Inr content \<and>
         NewRequest_err (sv_http env) = None \<and> Do_err (sv_http env) = None \<and>
         ReadAll_err (sv_http env) = None \<and> StatusCode (sv_http env) = 200 \<and>
         json_Unmarshal_post L (ReadAll_data (sv_http env)) = Inr result"
  using assms
  by (auto simp: SaveTopic_def Let_def split: sum.splits option.splits prod.splits
      dest!: do_Inr)

lemma SaveDraft_changed:
  assumes "SaveDraft c L q f topic fn env = (r, topic', effs)" and "topic' \<noteq> topic"
  shows "\<exists>content sequence. sv_ReadFile env = Inr content \<and>
         NewRequest_err (sv_http env) = None \<and> Do_err (sv_http env) = None \<and>
         ReadAll_err (sv_http env) = None \<and> StatusCode (sv_http env) = 200 \<and>
         json_Unmarshal_saved L (ReadAll_data (sv_http env)) = Inr (''OK'', sequence)"
  using assms
  by (auto simp: SaveDraft_def Let_def split: sum.splits option.splits prod.splits if_splits
      dest!: do_Inr)

text \<open>
  Claim C6. A topic has one \<open>Draft\<close> field, which holds a draft or nil, so it never has
  more than one draft, whatever is assigned to it. When \<open>SaveTopic\<close> returns nil, that
  field is nil, the post is the one decoded from the server's response (status 200) with
  its raw text set to the trimmed content of the file, and the draft sequence is that
  post's draft sequence.
\<close>

theorem C6_direct_save_clears_draft:
  "SaveTopic c L q f topic fn env = (Ok, topic', effs) \<Longrightarrow>
   Topic_Draft topic' = None \<and>
   (\<exists>p content. sv_ReadFile env = Inr content \<and> StatusCode (sv_http env) = 200 \<and>
      json_Unmarshal_post L (ReadAll_data (sv_http env)) = Inr (Some p) \<and>
      Topic_DraftSequence topic' = Post_DraftSequence p \<and>
      Topic_Post topic' = Some (p\<lparr>Post_Raw := bytes_TrimSpace L content\<rparr>))"
  by (auto simp: SaveTopic_def Let_def split: sum.splits option.splits prod.splits
      dest!: do_Inr)

theorem C6_direct_save_clears_draft_witness:
  "fst (SaveTopic example_cfg example_lib False example_forum
          (example_topic\<lparr>Topic_Draft := Some example_draft\<rparr>) ''f.md''
          (saving '' Hello there '' 200 ''post'')) = Ok
   \<and> Topic_Draft (fst (snd (SaveTopic example_cfg example_lib False example_forum
          (example_topic\<lparr>Topic_Draft := Some example_draft\<rparr>) ''f.md''
          (saving '' Hello there '' 200 ''post'')))) = None
   \<and> Topic_DraftSequence (fst (snd (SaveTopic example_cfg example_lib False example_forum
          (example_topic\<lparr>Topic_Draft := Some example_draft\<rparr>) ''f.md''
          (saving '' Hello there '' 200 ''post'')))) = 5"
  using C6_direct_save_clears_draft [of example_cfg example_lib False example_forum
      "example_topic\<lparr>Topic_Draft := Some example_draft\<rparr>" "''f.md''"
      "saving '' Hello there '' 200 ''post''"]
  by (simp add: SaveTopic_def do_def Let_def example_defs text_defs eval_defs)

text \<open>
  Claim C10. When \<open>SaveTopic\<close> or \<open>SaveDraft\<close> returns an error, the topic is the one it
  was given: post, draft and draft sequence are untouched. The topic changes only after
  the file was read, the request went through, the server answered 200 and the response
  was decoded, and for a draft only when its \<open>success\<close> field is \<open>OK\<close>.
\<close>

theorem C10_failed_save_leaves_topic:
  "((\<exists>e. fst (SaveTopic c L q f topic fn env) = Err e) \<longrightarrow>
      fst (snd (SaveTopic c L q f topic fn env)) = topic)
   \<and> ((\<exists>e. fst (SaveDraft c L q f topic fn env') = Err e) \<longrightarrow>
      fst (snd (SaveDraft c L q f topic fn env')) = topic)
   \<and> (fst (snd (SaveTopic c L q f topic fn env)) \<noteq> topic \<longrightarrow>
      (\<exists>content result. sv_ReadFile env = Inr content \<and> NewRequest_err (sv_http env) = None \<and>
         Do_err (sv_http env) = None \<and> ReadAll_err (sv_http env) = None \<and>
         StatusCode (sv_http env) = 200 \<and>
         json_Unmarshal_post L (ReadAll_data (sv_http env)) = Inr result))
   \<and> (fst (snd (SaveDraft c L q f topic fn env')) \<noteq> topic \<longrightarrow>
      (\<exists>content sequence. sv_ReadFile env' = Inr content \<and> NewRequest_err (sv_http env') = None \<and>
         Do_err (sv_http env') = None \<and> ReadAll_err (sv_http env') = None \<and>
         StatusCode (sv_http env') = 200 \<and>
         json_Unmarshal_saved L (ReadAll_data (sv_http env')) = Inr (''OK'', sequence)))"
proof (intro conjI impI)
  assume "\<exists>e. fst (SaveTopic c L q f topic fn env) = Err e"
  then show "fst (snd (SaveTopic c L q f topic fn env)) = topic"
    using SaveTopic_Err_unchanged [of c L q f topic fn env]
    by (cases "SaveTopic c L q f topic fn env") auto
next
  assume "\<exists>e. fst (SaveDraft c L q f topic fn env') = Err e"
  then show "fst (snd (SaveDraft c L q f topic fn env')) = topic"
    using SaveDraft_Err_unchanged [of c L q f topic fn env']
    by (cases "SaveDraft c L q f topic fn env'") auto
next
  assume "fst (snd (SaveTopic c L q f topic fn env)) \<noteq> topic"
  then show "\<exists>content result. sv_ReadFile env = Inr content \<and>
      NewRequest_err (sv_http env) = None \<and> Do_err (sv_http env) = None \<and>
      ReadAll_err (sv_http env) = None \<and> StatusCode (sv_http env) = 200 \<and>
      json_Unmarshal_post L (ReadAll_data (sv_http env)) = Inr result"
    using SaveTopic_changed [of c L q f topic fn env]
    by (cases "SaveTopic c L q f topic fn env") simp
next
  assume "fst (snd (SaveDraft c L q f topic fn env')) \<noteq> topic"
  then show "\<exists>content sequence. sv_ReadFile env' = Inr content \<and>
      NewRequest_err (sv_http env') = None \<and> Do_err (sv_http env') = None \<and>
      ReadAll_err (sv_http env') = None \<and> StatusCode (sv_http env') = 200 \<and>
      json_Unmarshal_saved L (ReadAll_data (sv_http env')) = Inr (''OK'', sequence)"
    using SaveDraft_changed [of c L q f topic fn env']
    by (cases "SaveDraft c L q f topic fn env'") simp
qed

theorem C10_failed_save_leaves_topic_witness:
  "fst (SaveTopic example_cfg example_lib False example_forum example_topic ''f.md''
          (saving ''Hello there'' 500 [])) = Err (Errorf ''cannot perform request: %s'' [ArgS ''got 500 status''])
   \<and> fst (snd (SaveTopic example_cfg example_lib False example_forum example_topic ''f.md''
          (saving ''Hello there'' 500 []))) = example_topic
   \<and> fst (SaveDraft example_cfg example_lib False example_forum example_topic ''f.md''
          (saving ''Hello there'' 200 ''refused''))
       = Err (Errorf ''cannot update draft: %q'' [ArgS ''draft was edited elsewhere''])
   \<and> fst (snd (SaveDraft example_cfg example_lib False example_forum example_topic ''f.md''
          (saving ''Hello there'' 200 ''refused''))) = example_topic
   \<and> fst (snd (SaveDraft example_cfg example_lib False example_forum example_topic ''f.md''
          (saving ''Hello there'' 200 ''saved''))) \<noteq> example_topic"
  using C10_failed_save_leaves_topic [of example_cfg example_lib False example_forum
      example_topic "''f.md''" "saving ''Hello there'' 500 []"
      "saving ''Hello there'' 200 ''refused''"]
  by (simp add: SaveTopic_def SaveDraft_def do_def Let_def example_defs text_defs eval_defs)

end
